theory Spec2Isabelle
  imports Complex_Main
begin

section \<open>The QInvest risk score engine (src/src/main.py)\<close>

text \<open>
  The engine is three Python functions and three FastAPI handlers around them:
  \<^verbatim>\<open>calculate_risk_score\<close> (lines 86-163), \<^verbatim>\<open>calcular_taxa_juros_anual\<close> (lines 165-187)
  and the handlers \<^verbatim>\<open>calculate_risk_score_endpoint\<close>, \<^verbatim>\<open>calculate_interest_rate_endpoint\<close>
  and \<^verbatim>\<open>calculate_full_score_endpoint\<close> (lines 412-506).

  Conventions of the embedding:
  \<^item> a Python \<^verbatim>\<open>float\<close> is a rational number (\<^typ>\<open>rat\<close>) and float arithmetic is exact
    arithmetic: every finite double is a rational, a decimal literal such as \<^verbatim>\<open>0.15\<close> is the
    fraction it denotes, and the rounding error of IEEE-754 operations, infinities and NaN
    are outside the model;
  \<^item> a Python \<^verbatim>\<open>int\<close> is an \<^typ>\<open>int\<close>; where the source mixes the two, the integer is
    converted with \<^term>\<open>of_int\<close>, as Python converts it;
  \<^item> a Python \<^verbatim>\<open>str\<close> is a \<^typ>\<open>string\<close>;
  \<^item> an exception is the \<open>Inl\<close> branch of a sum type.
\<close>

subsection \<open>Exceptions\<close>

datatype py_error = ZeroDivisionError | KeyError

text \<open>Sequencing of two steps of which the first may raise.\<close>

definition bind_res :: "'e + 'a \<Rightarrow> ('a \<Rightarrow> 'e + 'b) \<Rightarrow> 'e + 'b" where
  "bind_res m f = (case m of Inl e \<Rightarrow> Inl e | Inr x \<Rightarrow> f x)"

text \<open>Python's \<^verbatim>\<open>a / b\<close> on numbers: it raises \<^verbatim>\<open>ZeroDivisionError\<close> when \<^verbatim>\<open>b\<close> is zero.\<close>

definition truediv :: "rat \<Rightarrow> rat \<Rightarrow> py_error + rat" where
  "truediv a b = (if b = 0 then Inl ZeroDivisionError else Inr (a / b))"

text \<open>
  Python's \<^verbatim>\<open>round(x, n)\<close>: the multiple of \<open>10\<^sup>-\<^sup>n\<close> nearest to \<open>x\<close>, a tie going to
  the multiple whose last digit is even.
\<close>

definition py_round :: "rat \<Rightarrow> nat \<Rightarrow> rat" where
  "py_round x n =
     (let y = x * 10 ^ n;
          f = \<lfloor>y\<rfloor>;
          r = y - of_int f
      in of_int (if r < 1 / 2 then f
                 else if 1 / 2 < r then f + 1
                 else if even f then f else f + 1) / 10 ^ n)"

subsection \<open>Request and response models (lines 15-59)\<close>

record RiskScoreInput =
  idade_empresa :: rat
  cpf_score :: int
  divida_total :: rat
  faturamento_anual :: rat
  saldo_medio_diario :: rat
  faturamento_medio_mensal :: rat
  estresse_caixa_dias :: int
  valor_maior_cliente :: rat
  faturamento_total_periodo :: rat
  cnpj_score_api :: int

text \<open>
  \<^verbatim>\<open>InterestRateInput\<close>; its last two fields carry the prefix \<open>ir_\<close> because
  \<^verbatim>\<open>FullScoreInput\<close> declares fields of the same names.
\<close>

record InterestRateInput =
  risco_final_in :: rat
  ir_prazo_meses :: int
  ir_valor_solicitado :: rat

text \<open>
  \<^verbatim>\<open>FullScoreInput\<close> repeats the ten fields of \<^verbatim>\<open>RiskScoreInput\<close> and adds two; it is
  the record extended by these two.
\<close>

record FullScoreInput = RiskScoreInput +
  prazo_meses :: int
  valor_solicitado :: rat

record RiskScoreOutput =
  score :: rat
  classificacao :: string

record InterestRateOutput =
  taxa_juros_anual :: rat

text \<open>\<^verbatim>\<open>FullScoreOutput\<close>, its fields prefixed with \<open>full_\<close>.\<close>

record FullScoreOutput =
  full_score :: rat
  full_classificacao :: string
  full_taxa_juros_anual :: rat

subsection \<open>Normalisation of the variables (lines 101-140)\<close>

definition risco_idade :: "rat \<Rightarrow> int" where
  "risco_idade idade =
     (if idade < 2 then 400
      else if idade < 5 then 600
      else 1000)"

definition risco_cpf :: "int \<Rightarrow> int" where
  "risco_cpf cpf =
     (if cpf < 400 then 100
      else if cpf < 700 then 500
      else if cpf < 900 then 700
      else 1000)"

definition risco_endividamento :: "rat \<Rightarrow> rat \<Rightarrow> py_error + int" where
  "risco_endividamento divida faturamento =
     (if faturamento > 0 then
        bind_res (truediv divida faturamento) (\<lambda>indice_endividamento.
          Inr (if indice_endividamento > 1 then 100
               else if indice_endividamento > 6 / 10 then 300
               else if indice_endividamento > 3 / 10 then 700
               else 1000))
      else Inr 0)"

definition risco_liquidez :: "rat \<Rightarrow> rat \<Rightarrow> py_error + int" where
  "risco_liquidez saldo faturamento_mensal =
     (if faturamento_mensal > 0 then
        bind_res (truediv saldo faturamento_mensal) (\<lambda>indice_liquidez.
          Inr (if indice_liquidez < 1 / 10 then 100
               else if indice_liquidez < 4 / 10 then 500
               else 1000))
      else Inr 0)"

definition risco_estresse :: "int \<Rightarrow> int" where
  "risco_estresse dias =
     (if dias > 10 then 0
      else if dias > 5 then 300
      else if dias > 0 then 700
      else 1000)"

definition risco_concentracao :: "rat \<Rightarrow> rat \<Rightarrow> py_error + int" where
  "risco_concentracao maior_cliente faturamento_periodo =
     (if faturamento_periodo > 0 then
        bind_res (truediv maior_cliente faturamento_periodo) (\<lambda>indice_concentracao.
          Inr (if indice_concentracao > 6 / 10 then 100
               else if indice_concentracao > 3 / 10 then 500
               else if indice_concentracao > 2 / 10 then 900
               else 1000))
      else Inr 0)"

subsection \<open>Weights, clamping and classification (lines 142-163)\<close>

text \<open>The dictionary \<^verbatim>\<open>pesos\<close> and the subscript \<^verbatim>\<open>pesos[k]\<close>, which raises on a missing key.\<close>

definition pesos :: "(string \<times> rat) list" where
  "pesos =
     [(''idade'', 5 / 100), (''cpf_score'', 5 / 100), (''endividamento'', 15 / 100),
      (''liquidez'', 10 / 100), (''estresse_caixa'', 10 / 100), (''concentracao'', 5 / 100),
      (''score_biro'', 5 / 10)]"

definition pesos_item :: "string \<Rightarrow> py_error + rat" where
  "pesos_item k = (case map_of pesos k of None \<Rightarrow> Inl KeyError | Some w \<Rightarrow> Inr w)"

text \<open>The weighted sum of line 148, in the order of the source.\<close>

definition soma_ponderada :: "int \<Rightarrow> int \<Rightarrow> int \<Rightarrow> int \<Rightarrow> int \<Rightarrow> int \<Rightarrow> int \<Rightarrow> py_error + rat" where
  "soma_ponderada r_endividamento r_liquidez r_estresse r_concentracao r_idade r_cpf cnpj =
     bind_res (pesos_item ''endividamento'') (\<lambda>p_endividamento.
     bind_res (pesos_item ''liquidez'') (\<lambda>p_liquidez.
     bind_res (pesos_item ''estresse_caixa'') (\<lambda>p_estresse.
     bind_res (pesos_item ''concentracao'') (\<lambda>p_concentracao.
     bind_res (pesos_item ''idade'') (\<lambda>p_idade.
     bind_res (pesos_item ''cpf_score'') (\<lambda>p_cpf.
     bind_res (pesos_item ''score_biro'') (\<lambda>p_biro.
       Inr (of_int r_endividamento * p_endividamento + of_int r_liquidez * p_liquidez +
            of_int r_estresse * p_estresse + of_int r_concentracao * p_concentracao +
            of_int r_idade * p_idade + of_int r_cpf * p_cpf +
            of_int cnpj * p_biro))))))))"

text \<open>
  The value of the local variable \<^verbatim>\<open>risco_final\<close> after line 154: the weighted sum of the
  six sub-scores and the bureau score, clamped to \<open>[0, 1000]\<close>.
\<close>

definition risco_final ::
  "rat \<Rightarrow> int \<Rightarrow> rat \<Rightarrow> rat \<Rightarrow> rat \<Rightarrow> rat \<Rightarrow> int \<Rightarrow> rat \<Rightarrow> rat \<Rightarrow> int \<Rightarrow> py_error + rat" where
  "risco_final idade cpf divida faturamento saldo faturamento_mensal dias maior_cliente
       faturamento_periodo cnpj =
     bind_res (risco_endividamento divida faturamento) (\<lambda>r_endividamento.
     bind_res (risco_liquidez saldo faturamento_mensal) (\<lambda>r_liquidez.
     bind_res (risco_concentracao maior_cliente faturamento_periodo) (\<lambda>r_concentracao.
     bind_res (soma_ponderada r_endividamento r_liquidez (risco_estresse dias) r_concentracao
                 (risco_idade idade) (risco_cpf cpf) cnpj) (\<lambda>soma.
       Inr (max 0 (min 1000 soma))))))"

text \<open>The classification ladder of lines 157-161.\<close>

definition classificar :: "rat \<Rightarrow> string" where
  "classificar r =
     (if r > 800 then ''A''
      else if r > 600 then ''B''
      else if r > 400 then ''C''
      else if r > 200 then ''D''
      else ''automatically_reproved'')"

definition calculate_risk_score ::
  "rat \<Rightarrow> int \<Rightarrow> rat \<Rightarrow> rat \<Rightarrow> rat \<Rightarrow> rat \<Rightarrow> int \<Rightarrow> rat \<Rightarrow> rat \<Rightarrow> int \<Rightarrow> py_error + rat \<times> string" where
  "calculate_risk_score idade cpf divida faturamento saldo faturamento_mensal dias maior_cliente
       faturamento_periodo cnpj =
     bind_res (risco_final idade cpf divida faturamento saldo faturamento_mensal dias
                 maior_cliente faturamento_periodo cnpj) (\<lambda>r.
       Inr (py_round r 2, classificar r))"

subsection \<open>The annual interest rate (lines 165-187)\<close>

definition calcular_taxa_juros_anual :: "rat \<Rightarrow> int \<Rightarrow> rat \<Rightarrow> rat" where
  "calcular_taxa_juros_anual risco prazo valor =
     (let TAXA_BASE = 12 / 100;
          premio_risco = (- (risco - 1000) / 1000) * (25 / 100);
          premio_prazo = (if prazo \<le> 6 then 0
                          else if prazo \<le> 12 then 2 / 100
                          else if prazo \<le> 18 then 4 / 100
                          else 6 / 100);
          premio_valor = (if valor < 50000 then 0
                          else if valor < 150000 then 1 / 100
                          else if valor < 300000 then 25 / 1000
                          else 5 / 100)
      in TAXA_BASE + (premio_risco + premio_prazo + premio_valor))"

subsection \<open>The handlers (lines 412-506)\<close>

text \<open>
  A handler catches every exception of its body and raises \<^verbatim>\<open>HTTPException\<close> with
  status 400; the model keeps the status code and leaves the detail message out.
\<close>

datatype HTTPException = HTTPException nat

definition calculate_risk_score_endpoint :: "RiskScoreInput \<Rightarrow> HTTPException + RiskScoreOutput" where
  "calculate_risk_score_endpoint data =
     (case calculate_risk_score (idade_empresa data) (cpf_score data) (divida_total data)
             (faturamento_anual data) (saldo_medio_diario data) (faturamento_medio_mensal data)
             (estresse_caixa_dias data) (valor_maior_cliente data)
             (faturamento_total_periodo data) (cnpj_score_api data) of
        Inl e \<Rightarrow> Inl (HTTPException 400)
      | Inr (s, c) \<Rightarrow> Inr \<lparr>score = s, classificacao = c\<rparr>)"

definition calculate_interest_rate_endpoint ::
  "InterestRateInput \<Rightarrow> HTTPException + InterestRateOutput" where
  "calculate_interest_rate_endpoint data =
     (let taxa_juros = calcular_taxa_juros_anual (risco_final_in data) (ir_prazo_meses data)
                         (ir_valor_solicitado data)
      in Inr \<lparr>taxa_juros_anual = py_round taxa_juros 4\<rparr>)"

definition calculate_full_score_endpoint :: "FullScoreInput \<Rightarrow> HTTPException + FullScoreOutput" where
  "calculate_full_score_endpoint data =
     (case calculate_risk_score (idade_empresa data) (cpf_score data) (divida_total data)
             (faturamento_anual data) (saldo_medio_diario data) (faturamento_medio_mensal data)
             (estresse_caixa_dias data) (valor_maior_cliente data)
             (faturamento_total_periodo data) (cnpj_score_api data) of
        Inl e \<Rightarrow> Inl (HTTPException 400)
      | Inr (s, c) \<Rightarrow>
          (let taxa_juros = calcular_taxa_juros_anual s (prazo_meses data) (valor_solicitado data)
           in Inr \<lparr>full_score = s, full_classificacao = c,
                   full_taxa_juros_anual = py_round taxa_juros 4\<rparr>))"

section \<open>The pricing rule as the specification words it\<close>

text \<open>
  Section 4.3 of the specification: \<open>term_premium\<close> is 0.00 for a term of at most 6 months,
  0.02 for at most 12, 0.04 for at most 18 and 0.06 beyond; \<open>amount_premium\<close> is 0.00 below
  50000, 0.01 below 150000, 0.025 below 300000 and 0.05 from there on; the annual rate is
  \<open>0.12 + ((1000 - final_score) / 1000) * 0.25 + term_premium + amount_premium\<close>.
\<close>

definition spec_term_premium :: "int \<Rightarrow> rat" where
  "spec_term_premium term_months =
     (if term_months \<le> 6 then 0
      else if term_months \<le> 12 then 2 / 100
      else if term_months \<le> 18 then 4 / 100
      else 6 / 100)"

definition spec_amount_premium :: "rat \<Rightarrow> rat" where
  "spec_amount_premium requested_amount =
     (if requested_amount < 50000 then 0
      else if requested_amount < 150000 then 1 / 100
      else if requested_amount < 300000 then 25 / 1000
      else 5 / 100)"

definition spec_annual_rate :: "rat \<Rightarrow> int \<Rightarrow> rat \<Rightarrow> rat" where
  "spec_annual_rate final_score term_months requested_amount =
     12 / 100 + ((1000 - final_score) / 1000) * (25 / 100) +
     spec_term_premium term_months + spec_amount_premium requested_amount"

section \<open>Evaluation of the model\<close>

lemma pesos_item_simps:
  "pesos_item ''endividamento'' = Inr (15 / 100)"
  "pesos_item ''liquidez'' = Inr (10 / 100)"
  "pesos_item ''estresse_caixa'' = Inr (10 / 100)"
  "pesos_item ''concentracao'' = Inr (5 / 100)"
  "pesos_item ''idade'' = Inr (5 / 100)"
  "pesos_item ''cpf_score'' = Inr (5 / 100)"
  "pesos_item ''score_biro'' = Inr (5 / 10)"
  by (simp_all add: pesos_item_def pesos_def)

lemma soma_ponderada_eq:
  "soma_ponderada e l s c i p b =
     Inr (of_int e * (15 / 100) + of_int l * (10 / 100) + of_int s * (10 / 100) +
          of_int c * (5 / 100) + of_int i * (5 / 100) + of_int p * (5 / 100) +
          of_int b * (5 / 10))"
  by (simp add: soma_ponderada_def bind_res_def pesos_item_simps)

lemma risco_endividamento_eq:
  "risco_endividamento d f =
     Inr (if f > 0 then
            (if d / f > 1 then 100 else if d / f > 6 / 10 then 300
             else if d / f > 3 / 10 then 700 else 1000)
          else 0)"
  by (simp add: risco_endividamento_def truediv_def bind_res_def)

lemma risco_liquidez_eq:
  "risco_liquidez s f =
     Inr (if f > 0 then
            (if s / f < 1 / 10 then 100 else if s / f < 4 / 10 then 500 else 1000)
          else 0)"
  by (simp add: risco_liquidez_def truediv_def bind_res_def)

lemma risco_concentracao_eq:
  "risco_concentracao m f =
     Inr (if f > 0 then
            (if m / f > 6 / 10 then 100 else if m / f > 3 / 10 then 500
             else if m / f > 2 / 10 then 900 else 1000)
          else 0)"
  by (simp add: risco_concentracao_def truediv_def bind_res_def)

lemma risco_endividamento_dvd: "risco_endividamento d f = Inr e \<Longrightarrow> 100 dvd e"
  unfolding risco_endividamento_eq by (simp split: if_splits)

lemma risco_liquidez_dvd: "risco_liquidez s f = Inr l \<Longrightarrow> 100 dvd l"
  unfolding risco_liquidez_eq by (simp split: if_splits)

lemma risco_concentracao_dvd: "risco_concentracao m f = Inr c \<Longrightarrow> 100 dvd c"
  unfolding risco_concentracao_eq by (simp split: if_splits)

lemma py_round_half: "py_round (of_int k / 2) 2 = of_int k / 2"
proof -
  have y: "(of_int k / 2 :: rat) * 10 ^ 2 = of_int (50 * k)" by simp
  show ?thesis unfolding py_round_def y Let_def by simp
qed

lemma risco_estresse_dvd: "100 dvd risco_estresse n"
  by (simp add: risco_estresse_def)

lemma risco_idade_dvd: "100 dvd risco_idade x"
  by (simp add: risco_idade_def)

lemma risco_cpf_dvd: "100 dvd risco_cpf n"
  by (simp add: risco_cpf_def)

lemma risco_final_unfold:
  "risco_final i p d f s fm n m fp b =
     bind_res (risco_endividamento d f) (\<lambda>e.
     bind_res (risco_liquidez s fm) (\<lambda>l.
     bind_res (risco_concentracao m fp) (\<lambda>c.
       Inr (max 0 (min 1000
         (of_int e * (15 / 100) + of_int l * (10 / 100) + of_int (risco_estresse n) * (10 / 100) +
          of_int c * (5 / 100) + of_int (risco_idade i) * (5 / 100) +
          of_int (risco_cpf p) * (5 / 100) + of_int b * (5 / 10)))))))"
  unfolding risco_final_def soma_ponderada_eq by (simp add: bind_res_def)

lemma risco_endividamento_total: "\<exists>e. risco_endividamento d f = Inr e"
  unfolding risco_endividamento_eq by blast

lemma risco_liquidez_total: "\<exists>l. risco_liquidez s f = Inr l"
  unfolding risco_liquidez_eq by blast

lemma risco_concentracao_total: "\<exists>c. risco_concentracao m f = Inr c"
  unfolding risco_concentracao_eq by blast

lemma risco_final_Inr:
  assumes "risco_endividamento d f = Inr e" and "risco_liquidez s fm = Inr l"
    and "risco_concentracao m fp = Inr c"
  shows "risco_final i p d f s fm n m fp b =
       Inr (max 0 (min 1000
         (of_int e * (15 / 100) + of_int l * (10 / 100) + of_int (risco_estresse n) * (10 / 100) +
          of_int c * (5 / 100) + of_int (risco_idade i) * (5 / 100) +
          of_int (risco_cpf p) * (5 / 100) + of_int b * (5 / 10))))"
  unfolding risco_final_unfold assms bind_res_def by simp

lemma soma_half:
  assumes "100 dvd e" "100 dvd l" "100 dvd s" "100 dvd c" "100 dvd i" "100 dvd p"
  shows "\<exists>k::int. (of_int e * (15 / 100) + of_int l * (10 / 100) + of_int s * (10 / 100) +
          of_int c * (5 / 100) + of_int i * (5 / 100) + of_int p * (5 / 100) +
          of_int b * (5 / 10) :: rat) = of_int k / 2"
proof -
  from assms obtain e' l' s' c' i' p' where
    eqs: "e = 100 * e'" "l = 100 * l'" "s = 100 * s'" "c = 100 * c'" "i = 100 * i'" "p = 100 * p'"
    unfolding dvd_def by blast
  have "(of_int e * (15 / 100) + of_int l * (10 / 100) + of_int s * (10 / 100) +
          of_int c * (5 / 100) + of_int i * (5 / 100) + of_int p * (5 / 100) +
          of_int b * (5 / 10) :: rat) =
        of_int (2 * (15 * e' + 10 * l' + 10 * s' + 5 * c' + 5 * i' + 5 * p') + b) / 2"
    unfolding eqs by simp
  then show ?thesis by blast
qed

lemma clamp_half:
  "\<exists>j::int. max 0 (min 1000 (of_int k / 2 :: rat)) = of_int j / 2"
proof -
  consider "k \<le> 0" | "0 < k" "k < 2000" | "2000 \<le> k" by linarith
  then show ?thesis
  proof cases
    case 1
    then have "(of_int k / 2 :: rat) \<le> 0" by simp
    then have "max 0 (min 1000 (of_int k / 2 :: rat)) = of_int 0 / 2" by simp
    then show ?thesis by blast
  next
    case 2
    then have "0 < (of_int k / 2 :: rat)" "(of_int k / 2 :: rat) < 1000" by simp_all
    then have "max 0 (min 1000 (of_int k / 2 :: rat)) = of_int k / 2" by simp
    then show ?thesis by blast
  next
    case 3
    then have "1000 \<le> (of_int k / 2 :: rat)" by simp
    then have "max 0 (min 1000 (of_int k / 2 :: rat)) = of_int 2000 / 2" by simp
    then show ?thesis by blast
  qed
qed

lemma risco_final_half:
  "\<exists>k::int. risco_final i p d f s fm n m fp b = Inr (of_int k / 2)"
proof -
  obtain e where e: "risco_endividamento d f = Inr e" using risco_endividamento_total by blast
  obtain l where l: "risco_liquidez s fm = Inr l" using risco_liquidez_total by blast
  obtain c where c: "risco_concentracao m fp = Inr c" using risco_concentracao_total by blast
  obtain k :: int where k: "(of_int e * (15 / 100) + of_int l * (10 / 100) + of_int (risco_estresse n) * (10 / 100) +
          of_int c * (5 / 100) + of_int (risco_idade i) * (5 / 100) +
          of_int (risco_cpf p) * (5 / 100) + of_int b * (5 / 10) :: rat) = of_int k / 2"
    using soma_half [OF risco_endividamento_dvd [OF e] risco_liquidez_dvd [OF l]
        risco_estresse_dvd risco_concentracao_dvd [OF c] risco_idade_dvd risco_cpf_dvd]
    by blast
  obtain j :: int where j: "max 0 (min 1000 (of_int k / 2 :: rat)) = of_int j / 2"
    using clamp_half by blast
  have "risco_final i p d f s fm n m fp b = Inr (of_int j / 2)"
    unfolding risco_final_Inr [OF e l c] k j ..
  then show ?thesis ..
qed

lemma risco_final_total: "\<exists>r. risco_final i p d f s fm n m fp b = Inr r"
  using risco_final_half [of i p d f s fm n m fp b] by blast

lemma risco_final_range:
  assumes "risco_final i p d f s fm n m fp b = Inr r"
  shows "0 \<le> r \<and> r \<le> 1000"
proof -
  obtain e where e: "risco_endividamento d f = Inr e" using risco_endividamento_total by blast
  obtain l where l: "risco_liquidez s fm = Inr l" using risco_liquidez_total by blast
  obtain c where c: "risco_concentracao m fp = Inr c" using risco_concentracao_total by blast
  from assms obtain x :: rat where "r = max 0 (min 1000 x)"
    unfolding risco_final_Inr [OF e l c] by blast
  then show ?thesis by simp
qed

lemma calculate_risk_score_eq:
  assumes "risco_final i p d f s fm n m fp b = Inr r"
  shows "calculate_risk_score i p d f s fm n m fp b = Inr (r, classificar r)"
proof -
  obtain k :: int where "risco_final i p d f s fm n m fp b = Inr (of_int k / 2)"
    using risco_final_half by blast
  with assms have r: "r = of_int k / 2" by simp
  show ?thesis
    unfolding calculate_risk_score_def assms bind_res_def
    by (simp add: r py_round_half)
qed

lemmas eval_defs = calculate_risk_score_def risco_final_def risco_endividamento_eq
  risco_liquidez_eq risco_concentracao_eq soma_ponderada_eq bind_res_def risco_estresse_def
  risco_idade_def risco_cpf_def classificar_def py_round_def

lemma taxa_eq_spec:
  "calcular_taxa_juros_anual final_score term_months requested_amount =
     spec_annual_rate final_score term_months requested_amount"
  by (simp add: calcular_taxa_juros_anual_def spec_annual_rate_def spec_term_premium_def
      spec_amount_premium_def Let_def field_simps)

lemma spec_term_premium_bounds:
  "0 \<le> spec_term_premium t \<and> spec_term_premium t \<le> 6 / 100"
  by (simp add: spec_term_premium_def)

lemma spec_amount_premium_bounds:
  "0 \<le> spec_amount_premium a \<and> spec_amount_premium a \<le> 5 / 100"
  by (simp add: spec_amount_premium_def)

lemma leverage_ladder_antimono:
  fixes q1 q2 :: rat
  assumes "q1 \<le> q2"
  shows "(if q2 > 1 then 100 else if q2 > 6 / 10 then 300 else if q2 > 3 / 10 then 700
          else 1000 :: int) \<le>
         (if q1 > 1 then 100 else if q1 > 6 / 10 then 300 else if q1 > 3 / 10 then 700
          else 1000)"
  using assms by auto

lemma risco_endividamento_antimono:
  assumes "d1 \<le> d2" and "risco_endividamento d1 f = Inr e1" and "risco_endividamento d2 f = Inr e2"
  shows "e2 \<le> e1"
proof (cases "0 < f")
  case True
  with assms(1) have q: "d1 / f \<le> d2 / f" by (simp add: divide_right_mono)
  from assms(2) True have e1: "e1 = (if d1 / f > 1 then 100 else if d1 / f > 6 / 10 then 300
             else if d1 / f > 3 / 10 then 700 else 1000)"
    unfolding risco_endividamento_eq by simp
  from assms(3) True have e2: "e2 = (if d2 / f > 1 then 100 else if d2 / f > 6 / 10 then 300
             else if d2 / f > 3 / 10 then 700 else 1000)"
    unfolding risco_endividamento_eq by simp
  show ?thesis unfolding e1 e2 by (rule leverage_ladder_antimono [OF q])
next
  case False
  with assms(2,3) show ?thesis unfolding risco_endividamento_eq by simp
qed

lemma risco_estresse_antimono: "n1 \<le> n2 \<Longrightarrow> risco_estresse n2 \<le> risco_estresse n1"
  by (simp add: risco_estresse_def)

lemma risco_estresse_le: "risco_estresse n \<le> 1000"
  by (simp add: risco_estresse_def)

lemma risco_final_antimono:
  assumes "d1 \<le> d2"
    and "risco_final i p d1 f s fm n m fp b = Inr r1"
    and "risco_final i p d2 f s fm n m fp b = Inr r2"
  shows "r2 \<le> r1"
proof -
  obtain e1 where e1: "risco_endividamento d1 f = Inr e1" using risco_endividamento_total by blast
  obtain e2 where e2: "risco_endividamento d2 f = Inr e2" using risco_endividamento_total by blast
  obtain l where l: "risco_liquidez s fm = Inr l" using risco_liquidez_total by blast
  obtain c where c: "risco_concentracao m fp = Inr c" using risco_concentracao_total by blast
  have "e2 \<le> e1" using risco_endividamento_antimono [OF assms(1) e1 e2] .
  then have le: "(of_int e2 :: rat) * (15 / 100) \<le> of_int e1 * (15 / 100)" by simp
  define rest :: rat where "rest = of_int l * (10 / 100) + of_int (risco_estresse n) * (10 / 100) +
          of_int c * (5 / 100) + of_int (risco_idade i) * (5 / 100) +
          of_int (risco_cpf p) * (5 / 100) + of_int b * (5 / 10)"
  have r1: "r1 = max 0 (min 1000 (of_int e1 * (15 / 100) + rest))"
    using assms(2) unfolding risco_final_Inr [OF e1 l c] rest_def by (simp add: algebra_simps)
  have r2: "r2 = max 0 (min 1000 (of_int e2 * (15 / 100) + rest))"
    using assms(3) unfolding risco_final_Inr [OF e2 l c] rest_def by (simp add: algebra_simps)
  from le have "of_int e2 * (15 / 100) + rest \<le> of_int e1 * (15 / 100) + rest" by simp
  then show ?thesis unfolding r1 r2 by (intro max.mono min.mono order_refl)
qed

section \<open>Range of the score and its grade\<close>

text \<open>
  Claim C1. For every input (the valid ones, with non-negative numerics, among them) the
  risk-score calculation returns a score in \<open>[0, 1000]\<close>, and the returned grade is the one
  that the table with strict comparisons gives on the clamped final score \<open>r\<close>: above 800
  it is A, above 600 it is B, above 400 it is C, above 200 it is D, and otherwise it is
  \<^verbatim>\<open>automatically_reproved\<close>. An input whose score is exactly 800 is graded B, and one whose
  score is exactly 600 is graded C.
\<close>

theorem final_score_range_and_grade:
  "(\<exists>r sc g. risco_final i p d f s fm n m fp b = Inr r \<and>
      calculate_risk_score i p d f s fm n m fp b = Inr (sc, g) \<and>
      0 \<le> r \<and> r \<le> 1000 \<and> 0 \<le> sc \<and> sc \<le> 1000 \<and>
      g = (if 800 < r then ''A'' else if 600 < r then ''B'' else if 400 < r then ''C''
           else if 200 < r then ''D'' else ''automatically_reproved'')) \<and>
   calculate_risk_score 0 100 0 500000 200 1000 2 1000 1000 1000 = Inr (800, ''B'') \<and>
   calculate_risk_score 0 100 0 500000 200 1000 2 1000 1000 600 = Inr (600, ''C'')"
proof (intro conjI)
  obtain r where r: "risco_final i p d f s fm n m fp b = Inr r"
    using risco_final_total by blast
  from risco_final_range [OF r] calculate_risk_score_eq [OF r] r
  show "\<exists>r sc g. risco_final i p d f s fm n m fp b = Inr r \<and>
      calculate_risk_score i p d f s fm n m fp b = Inr (sc, g) \<and>
      0 \<le> r \<and> r \<le> 1000 \<and> 0 \<le> sc \<and> sc \<le> 1000 \<and>
      g = (if 800 < r then ''A'' else if 600 < r then ''B'' else if 400 < r then ''C''
           else if 200 < r then ''D'' else ''automatically_reproved'')"
    unfolding classificar_def by blast
next
  show "calculate_risk_score 0 100 0 500000 200 1000 2 1000 1000 1000 = Inr (800, ''B'')"
    by (simp add: eval_defs)
next
  show "calculate_risk_score 0 100 0 500000 200 1000 2 1000 1000 600 = Inr (600, ''C'')"
    by (simp add: eval_defs)
qed

section \<open>The literal scenario\<close>

text \<open>
  Claim C2, as stated, fails. On the input with age 3.5, personal credit 750, debt 100000,
  revenue 500000, balance 15000, monthly revenue 41667, 2 stress days, largest client 80000,
  period revenue 300000 and bureau score 800, it is not the case that the sub-scores are
  leverage 1000, liquidity 500, cash-stress 700, concentration 500, age 600 and personal
  credit 700 with the result (760, B): the concentration ratio 80000 / 300000 is below 0.3.
\<close>

theorem literal_scenario_counterexample:
  "\<not> (risco_endividamento 100000 500000 = Inr 1000 \<and>
      risco_liquidez 15000 41667 = Inr 500 \<and>
      risco_estresse 2 = 700 \<and>
      risco_concentracao 80000 300000 = Inr 500 \<and>
      risco_idade (35 / 10) = 600 \<and>
      risco_cpf 750 = 700 \<and>
      calculate_risk_score (35 / 10) 750 100000 500000 15000 41667 2 80000 300000 800 =
        Inr (760, ''B''))"
  by (simp add: eval_defs)

text \<open>
  Claim C2, amended. On that input the sub-scores are leverage 1000, liquidity 500,
  cash-stress 700, concentration 900, age 600 and personal credit 700; the weighted final
  score is 780 and the grade is B.
\<close>

theorem literal_scenario:
  "risco_endividamento 100000 500000 = Inr 1000 \<and>
   risco_liquidez 15000 41667 = Inr 500 \<and>
   risco_estresse 2 = 700 \<and>
   risco_concentracao 80000 300000 = Inr 900 \<and>
   risco_idade (35 / 10) = 600 \<and>
   risco_cpf 750 = 700 \<and>
   risco_final (35 / 10) 750 100000 500000 15000 41667 2 80000 300000 800 = Inr 780 \<and>
   calculate_risk_score (35 / 10) 750 100000 500000 15000 41667 2 80000 300000 800 =
     Inr (780, ''B'')"
  by (simp add: eval_defs)

section \<open>Granularity of the score\<close>

text \<open>
  Claim C10. In exact arithmetic the clamped weighted final score is an integer multiple of
  0.5, for every input; rounding it to two decimals leaves it unchanged, so the score that is
  returned is that multiple, and the classification, computed from the unrounded score, is
  the one that the grade thresholds give on the returned score.
\<close>

theorem score_granularity:
  "\<exists>k::int. risco_final i p d f s fm n m fp b = Inr (of_int k / 2) \<and>
     py_round (of_int k / 2) 2 = of_int k / 2 \<and>
     calculate_risk_score i p d f s fm n m fp b = Inr (of_int k / 2, classificar (of_int k / 2))"
proof -
  obtain k :: int where k: "risco_final i p d f s fm n m fp b = Inr (of_int k / 2)"
    using risco_final_half by blast
  from k calculate_risk_score_eq [OF k] py_round_half [of k] show ?thesis by blast
qed

section \<open>Bucket boundaries of the normaliser\<close>



section \<open>The annual rate\<close>


text \<open>
  Claim C9. For every final score in \<open>[0, 1000]\<close>, every term and every requested amount,
  the annual rate, which the pricer does not clamp, lies in \<open>[0.12, 0.48]\<close>; it is 0.12 at
  score 1000 with a term of at most 6 months and an amount below 50000, and 0.48 at score 0
  with a term above 18 months and an amount of at least 300000.
\<close>

theorem rate_bounds:
  "(0 \<le> final_score \<and> final_score \<le> 1000 \<longrightarrow>
      12 / 100 \<le> calcular_taxa_juros_anual final_score term_months requested_amount \<and>
      calcular_taxa_juros_anual final_score term_months requested_amount \<le> 48 / 100) \<and>
   (t_lo \<le> 6 \<and> a_lo < 50000 \<longrightarrow> calcular_taxa_juros_anual 1000 t_lo a_lo = 12 / 100) \<and>
   (18 < t_hi \<and> 300000 \<le> a_hi \<longrightarrow> calcular_taxa_juros_anual 0 t_hi a_hi = 48 / 100)"
proof (intro conjI impI)
  assume range: "0 \<le> final_score \<and> final_score \<le> 1000"
  then have risk: "0 \<le> (1000 - final_score) / 1000 * (25 / 100)"
    "(1000 - final_score) / 1000 * (25 / 100) \<le> 25 / 100"
    by simp_all
  from risk(1) spec_term_premium_bounds [of term_months]
    spec_amount_premium_bounds [of requested_amount]
  show "12 / 100 \<le> calcular_taxa_juros_anual final_score term_months requested_amount"
    unfolding taxa_eq_spec spec_annual_rate_def by linarith
  from risk(2) spec_term_premium_bounds [of term_months]
    spec_amount_premium_bounds [of requested_amount]
  show "calcular_taxa_juros_anual final_score term_months requested_amount \<le> 48 / 100"
    unfolding taxa_eq_spec spec_annual_rate_def by linarith
next
  assume "t_lo \<le> 6 \<and> a_lo < 50000"
  then show "calcular_taxa_juros_anual 1000 t_lo a_lo = 12 / 100"
    by (simp add: calcular_taxa_juros_anual_def Let_def)
next
  assume "18 < t_hi \<and> 300000 \<le> a_hi"
  then show "calcular_taxa_juros_anual 0 t_hi a_hi = 48 / 100"
    by (simp add: calcular_taxa_juros_anual_def Let_def)
qed

text \<open>The bounds at score 500, and the two extremes at concrete terms and amounts.\<close>

theorem rate_bounds_witness:
  "((0::rat) \<le> 500 \<and> (500::rat) \<le> 1000) \<and>
   12 / 100 \<le> calcular_taxa_juros_anual 500 12 100000 \<and>
   calcular_taxa_juros_anual 500 12 100000 \<le> 48 / 100 \<and>
   ((6::int) \<le> 6 \<and> (0::rat) < 50000) \<and> calcular_taxa_juros_anual 1000 6 0 = 12 / 100 \<and>
   ((18::int) < 24 \<and> (300000::rat) \<le> 300000) \<and>
   calcular_taxa_juros_anual 0 24 300000 = 48 / 100"
  using rate_bounds [of 500 12 100000 6 0 24 300000] by simp

section \<open>Totality and guarded divisions\<close>

text \<open>
  Claim C6. The risk-score calculation raises no error, on any input: it returns a score and
  a grade. Each division is guarded by a positivity test on its denominator, and when the
  annual revenue, the average monthly revenue or the period revenue is zero or negative, the
  leverage, liquidity or concentration sub-score, respectively, is exactly 0.
\<close>

theorem guarded_divisions:
  "(\<exists>sc g. calculate_risk_score i p d f s fm n m fp b = Inr (sc, g)) \<and>
   (f \<le> 0 \<longrightarrow> risco_endividamento d f = Inr 0) \<and>
   (fm \<le> 0 \<longrightarrow> risco_liquidez s fm = Inr 0) \<and>
   (fp \<le> 0 \<longrightarrow> risco_concentracao m fp = Inr 0)"
proof -
  obtain r where r: "risco_final i p d f s fm n m fp b = Inr r"
    using risco_final_total by blast
  have "\<exists>sc g. calculate_risk_score i p d f s fm n m fp b = Inr (sc, g)"
    using calculate_risk_score_eq [OF r] by blast
  moreover have "f \<le> 0 \<longrightarrow> risco_endividamento d f = Inr 0"
    by (simp add: risco_endividamento_def)
  moreover have "fm \<le> 0 \<longrightarrow> risco_liquidez s fm = Inr 0"
    by (simp add: risco_liquidez_def)
  moreover have "fp \<le> 0 \<longrightarrow> risco_concentracao m fp = Inr 0"
    by (simp add: risco_concentracao_def)
  ultimately show ?thesis by blast
qed

text \<open>The three revenues at zero.\<close>

theorem guarded_divisions_witness:
  "(\<exists>sc g. calculate_risk_score (35 / 10) 750 100000 0 15000 0 2 80000 0 800 = Inr (sc, g)) \<and>
   (0::rat) \<le> 0 \<and>
   risco_endividamento 100000 0 = Inr 0 \<and>
   risco_liquidez 15000 0 = Inr 0 \<and>
   risco_concentracao 80000 0 = Inr 0"
  using guarded_divisions [of "35 / 10" 750 100000 0 15000 0 2 80000 0 800] by simp

section \<open>Monotonicity in the risk drivers\<close>

text \<open>
  Claim C7. With all other fields held fixed, for any two values \<open>d1 \<le> d2\<close> of the total
  debt the final score computed with \<open>d1\<close> is at least the final score computed with
  \<open>d2\<close>; and for any two non-negative numbers \<open>n1 \<le> n2\<close> of cash-stress days the
  cash-stress sub-score of \<open>n1\<close> is at least that of \<open>n2\<close>. Exactly 0 days give 1000,
  which is the maximum of the sub-score.
\<close>

theorem risk_driver_monotonicity:
  "(d1 \<le> d2 \<longrightarrow>
      (\<exists>sc1 g1 sc2 g2.
         calculate_risk_score i p d1 f s fm n m fp b = Inr (sc1, g1) \<and>
         calculate_risk_score i p d2 f s fm n m fp b = Inr (sc2, g2) \<and> sc2 \<le> sc1)) \<and>
   (0 \<le> n1 \<and> n1 \<le> n2 \<longrightarrow> risco_estresse n2 \<le> risco_estresse n1) \<and>
   risco_estresse 0 = 1000 \<and> risco_estresse n3 \<le> 1000"
proof (intro conjI impI)
  assume le: "d1 \<le> d2"
  obtain r1 where r1: "risco_final i p d1 f s fm n m fp b = Inr r1"
    using risco_final_total by blast
  obtain r2 where r2: "risco_final i p d2 f s fm n m fp b = Inr r2"
    using risco_final_total by blast
  from risco_final_antimono [OF le r1 r2] calculate_risk_score_eq [OF r1]
    calculate_risk_score_eq [OF r2]
  show "\<exists>sc1 g1 sc2 g2.
         calculate_risk_score i p d1 f s fm n m fp b = Inr (sc1, g1) \<and>
         calculate_risk_score i p d2 f s fm n m fp b = Inr (sc2, g2) \<and> sc2 \<le> sc1"
    by blast
next
  assume "0 \<le> n1 \<and> n1 \<le> n2"
  then show "risco_estresse n2 \<le> risco_estresse n1"
    by (simp add: risco_estresse_antimono)
next
  show "risco_estresse 0 = 1000" by (simp add: risco_estresse_def)
next
  show "risco_estresse n3 \<le> 1000" by (rule risco_estresse_le)
qed

text \<open>The debts 100000 and 400000 in the literal scenario, and 2 and 7 stress days.\<close>

theorem risk_driver_monotonicity_witness:
  "(100000::rat) \<le> 400000 \<and>
   calculate_risk_score (35 / 10) 750 100000 500000 15000 41667 2 80000 300000 800 = Inr (780, ''B'') \<and>
   calculate_risk_score (35 / 10) 750 400000 500000 15000 41667 2 80000 300000 800 = Inr (675, ''B'') \<and>
   (675::rat) \<le> 780 \<and>
   ((0::int) \<le> 2 \<and> (2::int) \<le> 7) \<and> risco_estresse 7 \<le> risco_estresse 2 \<and>
   risco_estresse 0 = 1000 \<and> risco_estresse 11 \<le> 1000"
  using risk_driver_monotonicity [of 100000 400000 "35 / 10" 750 500000 15000 41667 2 80000 300000 800 2 7 11]
  by (simp add: eval_defs)

section \<open>The combined handler\<close>

text \<open>
  Claim C5. For every input the combined full-score handler returns the score, the
  classification and the annual rate that are obtained by first calling the risk-score
  handler on the ten financial fields and then calling the interest-rate handler on the
  score it returned, which is rounded to two decimals, with the same term and amount. None
  of the three calls fails.
\<close>

theorem full_score_composition:
  "\<exists>r t.
     calculate_risk_score_endpoint
       \<lparr>idade_empresa = idade_empresa data, cpf_score = cpf_score data,
        divida_total = divida_total data, faturamento_anual = faturamento_anual data,
        saldo_medio_diario = saldo_medio_diario data,
        faturamento_medio_mensal = faturamento_medio_mensal data,
        estresse_caixa_dias = estresse_caixa_dias data,
        valor_maior_cliente = valor_maior_cliente data,
        faturamento_total_periodo = faturamento_total_periodo data,
        cnpj_score_api = cnpj_score_api data\<rparr> = Inr r \<and>
     calculate_interest_rate_endpoint
       \<lparr>risco_final_in = score r, ir_prazo_meses = prazo_meses data,
        ir_valor_solicitado = valor_solicitado data\<rparr> = Inr t \<and>
     calculate_full_score_endpoint data =
       Inr \<lparr>full_score = score r, full_classificacao = classificacao r,
            full_taxa_juros_anual = taxa_juros_anual t\<rparr>"
proof -
  obtain r where r: "risco_final (idade_empresa data) (cpf_score data) (divida_total data)
             (faturamento_anual data) (saldo_medio_diario data) (faturamento_medio_mensal data)
             (estresse_caixa_dias data) (valor_maior_cliente data)
             (faturamento_total_periodo data) (cnpj_score_api data) = Inr r"
    using risco_final_total by blast
  show ?thesis
    by (simp add: calculate_risk_score_endpoint_def calculate_interest_rate_endpoint_def
        calculate_full_score_endpoint_def calculate_risk_score_eq [OF r] Let_def)
qed

section \<open>Determinism\<close>



end
